theory Spec2Isabelle
  imports Complex_Main
begin

section \<open>Strings\<close>

text \<open>
  JavaScript strings are modelled as \<open>string\<close>, a character standing for the code unit
  of the same number (0 to 255). On these, \<open>toLowerCase\<close> maps the capitals to their
  small letters: A to Z, and the accented capitals 192 to 222 except the multiplication
  sign 215; \<open>trim\<close> removes the white space at both ends: tab, line feed, vertical tab,
  form feed, carriage return, space and the no-break space 160. \<open>endsWith\<close> and
  \<open>startsWith\<close> are the methods of the same name.
\<close>

definition lowerChar :: "char \<Rightarrow> char" where
  "lowerChar c =
     (let n = (of_char c :: nat)
      in if (65 \<le> n \<and> n \<le> 90) \<or> (192 \<le> n \<and> n \<le> 222 \<and> n \<noteq> 215) then char_of (n + 32) else c)"

definition toLowerCase :: "string \<Rightarrow> string" where
  "toLowerCase s = map lowerChar s"

definition endsWith :: "string \<Rightarrow> string \<Rightarrow> bool" where
  "endsWith s suf = (length suf \<le> length s \<and> drop (length s - length suf) s = suf)"

definition startsWith :: "string \<Rightarrow> string \<Rightarrow> bool" where
  "startsWith s pre = (take (length pre) s = pre)"

definition isWhiteSpace :: "char \<Rightarrow> bool" where
  "isWhiteSpace c = (let n = (of_char c :: nat) in (9 \<le> n \<and> n \<le> 13) \<or> n = 32 \<or> n = 160)"

definition trim :: "string \<Rightarrow> string" where
  "trim s = rev (dropWhile isWhiteSpace (rev (dropWhile isWhiteSpace s)))"

section \<open>The application component (App.tsx)\<close>

subsection \<open>Types (types.ts)\<close>

datatype ViewMode = VIEWPORT | RESULT | SPLIT

datatype CharacterType = Type2d | Type3d

text \<open>
  A URL is either an object URL, named by the serial number under which
  \<open>URL.createObjectURL\<close> registered its blob, or the data URL a \<open>FileReader\<close> produced
  from a file's bytes.
\<close>

datatype Url = ObjectURL nat | DataURL string

record Character =
  char_id :: string
  char_type :: CharacterType
  char_url :: Url
  char_name :: string

record GenerationState =
  isGenerating :: bool
  generatedImage :: "string option"
  error :: "string option"

text \<open>A browser \<open>File\<close>: its name, its MIME type and its bytes.\<close>

record File =
  file_name :: string
  file_type :: string
  file_bytes :: string

subsection \<open>State\<close>

text \<open>
  The \<open>useState\<close> cells of \<open>App\<close>, then what the handlers reach outside React:
  \<open>captureRef\<close> is \<open>None\<close> while \<open>captureRef.current\<close> is null and otherwise holds the
  string \<open>toDataURL\<close> returns; \<open>objectUrls\<close> lists the blobs registered with
  \<open>URL.createObjectURL\<close>, in order (the n-th object URL names the n-th blob);
  \<open>serviceCalls\<close> lists the calls of \<open>generateCharacterInScene\<close> started so far, each
  with its scene snapshot, prompt and reference image.
\<close>

record AppState =
  splatUrl :: "Url option"
  splatFileName :: "string option"
  isLoading :: bool
  characters :: "Character list"
  generationState :: GenerationState
  viewMode :: ViewMode
  captureRef :: "string option"
  objectUrls :: "string list"
  serviceCalls :: "(string \<times> string \<times> Url option) list"

definition initialApp :: AppState where
  "initialApp =
     \<lparr> splatUrl = None, splatFileName = None, isLoading = False, characters = [],
       generationState = \<lparr> isGenerating = False, generatedImage = None, error = None \<rparr>,
       viewMode = VIEWPORT, captureRef = None, objectUrls = [], serviceCalls = [] \<rparr>"

definition createObjectURL :: "string \<Rightarrow> AppState \<Rightarrow> Url \<times> AppState" where
  "createObjectURL blob s =
     (ObjectURL (length (objectUrls s)), s\<lparr> objectUrls := objectUrls s @ [blob] \<rparr>)"

subsection \<open>handleUploadSplat\<close>

text \<open>
  The result of \<open>file.arrayBuffer\<close> followed by \<open>fflate.unzip\<close> is a parameter of the
  model: \<open>Inl msg\<close> when either fails with message \<open>msg\<close>, \<open>Inr entries\<close> with the
  archive's entries (name and bytes) in the order of \<open>Object.keys\<close> otherwise.
  \<open>findInnerFile\<close> returns the entry whose name the two \<open>find\<close> calls select, so that
  \<open>unzipped[innerFile]\<close> is its second component.
\<close>

type_synonym Unzip = "File \<Rightarrow> string + (string \<times> string) list"

definition isSpz :: "File \<Rightarrow> bool" where
  "isSpz file = endsWith (toLowerCase (file_name file)) ''.spz''"

definition findInnerFile :: "(string \<times> string) list \<Rightarrow> (string \<times> string) option" where
  "findInnerFile unzipped =
     (case find (\<lambda>(n, b). endsWith (toLowerCase n) ''.splat'' \<or> endsWith (toLowerCase n) ''.ksplat'')
             unzipped of
        Some e \<Rightarrow> Some e
      | None \<Rightarrow> find (\<lambda>(n, b). endsWith (toLowerCase n) ''.ply'') unzipped)"

text \<open>The \<open>catch\<close> block followed by \<open>finally\<close>.\<close>

definition uploadSplatFailed :: "string \<Rightarrow> AppState \<Rightarrow> AppState" where
  "uploadSplatFailed msg s =
     s\<lparr> generationState := (generationState s)\<lparr> error := Some (''Failed to load file: '' @ msg) \<rparr>,
        splatUrl := None,
        isLoading := False \<rparr>"

text \<open>\<open>setSplatUrl(url)\<close> at the end of the \<open>try\<close> block, followed by \<open>finally\<close>.\<close>

definition uploadSplatDone :: "Url \<Rightarrow> AppState \<Rightarrow> AppState" where
  "uploadSplatDone u s = s\<lparr> splatUrl := Some u, isLoading := False \<rparr>"

text \<open>
  The handler is asynchronous. \<open>handleUploadSplat_start\<close> is what runs before the first
  \<open>await\<close>: for a file that is no \<open>.spz\<close> archive there is no \<open>await\<close> and the handler
  runs to its end; for an archive it stops there (the flag returned is \<open>True\<close>) and
  \<open>handleUploadSplat_resume\<close> is the rest, run when the archive has been read and
  unzipped.
\<close>

definition handleUploadSplat_start :: "File \<Rightarrow> AppState \<Rightarrow> AppState \<times> bool" where
  "handleUploadSplat_start file s =
     (let s1 = s\<lparr> isLoading := True,
                  splatFileName := Some (file_name file),
                  generationState := (generationState s)\<lparr> generatedImage := None, error := None \<rparr>,
                  viewMode := VIEWPORT \<rparr>
      in if isSpz file then (s1, True)
         else (let (u, s2) = createObjectURL (file_bytes file) s1 in (uploadSplatDone u s2, False)))"

definition handleUploadSplat_resume :: "Unzip \<Rightarrow> File \<Rightarrow> AppState \<Rightarrow> AppState" where
  "handleUploadSplat_resume unzip file s =
     (case unzip file of
        Inl err \<Rightarrow> uploadSplatFailed err s
      | Inr unzipped \<Rightarrow>
          (case findInnerFile unzipped of
             None \<Rightarrow> uploadSplatFailed ''No valid .splat or .ply file found inside SPZ archive'' s
           | Some (innerFile, bytes) \<Rightarrow>
               (let (u, s1) = createObjectURL bytes s in uploadSplatDone u s1)))"

text \<open>One upload with nothing else happening in between.\<close>

definition handleUploadSplat :: "Unzip \<Rightarrow> File \<Rightarrow> AppState \<Rightarrow> AppState" where
  "handleUploadSplat unzip file s =
     (let (s1, suspended) = handleUploadSplat_start file s
      in if suspended then handleUploadSplat_resume unzip file s1 else s1)"

text \<open>
  Several uploads: an event is the user choosing a file, or the archive of an earlier
  upload having been unzipped.
\<close>

datatype UploadEvent = Upload File | Unzipped File

fun uploadStep :: "Unzip \<Rightarrow> AppState \<Rightarrow> UploadEvent \<Rightarrow> AppState" where
  "uploadStep unzip s (Upload file) = fst (handleUploadSplat_start file s)"
| "uploadStep unzip s (Unzipped file) = handleUploadSplat_resume unzip file s"

definition runUploads :: "Unzip \<Rightarrow> UploadEvent list \<Rightarrow> AppState \<Rightarrow> AppState" where
  "runUploads unzip evs s = foldl (uploadStep unzip) s evs"

subsection \<open>handleUploadCharacter and handleRemoveCharacter\<close>

text \<open>
  \<open>newId\<close> is the eight characters taken from \<open>crypto.randomUUID\<close>. For an image the
  character is added by the reader's \<open>onloadend\<close> callback: the handler returns the character
  the callback will add, and \<open>readerLoadEnd\<close> is the callback.
\<close>

definition is3D :: "File \<Rightarrow> bool" where
  "is3D file = (endsWith (toLowerCase (file_name file)) ''.glb''
                \<or> endsWith (toLowerCase (file_name file)) ''.gltf'')"

definition isImage :: "File \<Rightarrow> bool" where
  "isImage file = startsWith (file_type file) ''image/''"

definition handleUploadCharacter :: "string \<Rightarrow> File \<Rightarrow> AppState \<Rightarrow> AppState \<times> Character option" where
  "handleUploadCharacter newId file s =
     (if is3D file then
        (let (u, s1) = createObjectURL (file_bytes file) s;
             newChar = \<lparr> char_id = newId, char_type = Type3d, char_url = u,
                         char_name = file_name file \<rparr>
         in (s1\<lparr> characters := characters s1 @ [newChar], viewMode := VIEWPORT \<rparr>, None))
      else if isImage file then
        (s\<lparr> viewMode := VIEWPORT \<rparr>,
         Some \<lparr> char_id = newId, char_type = Type2d, char_url = DataURL (file_bytes file),
                char_name = file_name file \<rparr>)
      else (s, None))"

definition readerLoadEnd :: "Character \<Rightarrow> AppState \<Rightarrow> AppState" where
  "readerLoadEnd newChar s = s\<lparr> characters := characters s @ [newChar] \<rparr>"

definition handleRemoveCharacter :: "string \<Rightarrow> AppState \<Rightarrow> AppState" where
  "handleRemoveCharacter rid s = s\<lparr> characters := filter (\<lambda>c. char_id c \<noteq> rid) (characters s) \<rparr>"

subsection \<open>captureScene and handleGenerate\<close>

definition captureScene :: "AppState \<Rightarrow> string option" where
  "captureScene s = captureRef s"

text \<open>
  \<open>handleGenerate\<close> up to its \<open>await\<close>: with a snapshot it sets the busy flag and starts
  the service call. A snapshot is refused by \<open>!sceneSnapshot\<close> when it is null or the
  empty string.
\<close>

definition handleGenerate :: "string \<Rightarrow> AppState \<Rightarrow> AppState" where
  "handleGenerate prompt s =
     (case captureScene s of
        None \<Rightarrow> s\<lparr> generationState := (generationState s)\<lparr> error := Some ''Failed to capture 3D scene.'' \<rparr> \<rparr>
      | Some sceneSnapshot \<Rightarrow>
          if sceneSnapshot = [] then
            s\<lparr> generationState := (generationState s)\<lparr> error := Some ''Failed to capture 3D scene.'' \<rparr> \<rparr>
          else
            (let characterImage = map_option char_url (find (\<lambda>c. char_type c = Type2d) (characters s))
             in s\<lparr> generationState := \<lparr> isGenerating = True, generatedImage = None, error = None \<rparr>,
                   serviceCalls := serviceCalls s @ [(sceneSnapshot, prompt, characterImage)] \<rparr>))"

text \<open>The rest of the \<open>try\<close> block once the service has answered, and the \<open>catch\<close> block.\<close>

definition generateResolved :: "string \<Rightarrow> AppState \<Rightarrow> AppState" where
  "generateResolved resultImage s =
     s\<lparr> generationState := \<lparr> isGenerating = False, generatedImage = Some resultImage, error = None \<rparr>,
        viewMode := RESULT \<rparr>"

definition generateRejected :: "string option \<Rightarrow> AppState \<Rightarrow> AppState" where
  "generateRejected message s =
     s\<lparr> generationState :=
          \<lparr> isGenerating = False, generatedImage = None,
            error = Some (case message of
                            None \<Rightarrow> ''Something went wrong during generation.''
                          | Some m \<Rightarrow> if m = [] then ''Something went wrong during generation.'' else m) \<rparr> \<rparr>"

subsection \<open>The control panel's prompt form\<close>

text \<open>
  \<open>handleSubmit\<close> is the form's submit handler. The submit button carries
  \<open>disabled={isGenerating || !prompt.trim()}\<close>; a click on a disabled button submits
  nothing, which is \<open>submitClick\<close>.
\<close>

definition handleSubmit :: "string \<Rightarrow> AppState \<Rightarrow> AppState" where
  "handleSubmit prompt s = (if trim prompt = [] then s else handleGenerate prompt s)"

definition submitDisabled :: "string \<Rightarrow> AppState \<Rightarrow> bool" where
  "submitDisabled prompt s = (isGenerating (generationState s) \<or> trim prompt = [])"

definition submitClick :: "string \<Rightarrow> AppState \<Rightarrow> AppState" where
  "submitClick prompt s = (if submitDisabled prompt s then s else handleSubmit prompt s)"

text \<open>
  The form is the only caller of \<open>handleGenerate\<close>. What happens to a generation
  request is then a sequence of events: a click on the submit button with the prompt
  typed so far, or the answer of the service to a call that is outstanding, an image or
  a failure. The state is paired with the number of service calls that have been
  answered; an answer can only arrive while that number is below the number of calls
  started.
\<close>

datatype PanelEvent = SubmitClick string | ServiceResolved string | ServiceRejected "string option"

fun panelStep :: "AppState \<times> nat \<Rightarrow> PanelEvent \<Rightarrow> AppState \<times> nat" where
  "panelStep (s, answered) (SubmitClick prompt) = (submitClick prompt s, answered)"
| "panelStep (s, answered) (ServiceResolved resultImage) =
     (if answered < length (serviceCalls s) then (generateResolved resultImage s, Suc answered)
      else (s, answered))"
| "panelStep (s, answered) (ServiceRejected message) =
     (if answered < length (serviceCalls s) then (generateRejected message s, Suc answered)
      else (s, answered))"

section \<open>Vectors and rotations\<close>

text \<open>
  The engine's \<open>Vec3\<close> and \<open>Quat\<close>, with numbers read as reals. \<open>transformVector\<close> is the
  engine's rotation of a vector by a quaternion, \<open>clamp\<close> its \<open>math.clamp\<close>, and
  \<open>atan2\<close> is \<open>Math.atan2\<close> (without signed zeros).
\<close>

record Vec3 =
  vx :: real
  vy :: real
  vz :: real

record Quat =
  qx :: real
  qy :: real
  qz :: real
  qw :: real

definition vec3 :: "real \<Rightarrow> real \<Rightarrow> real \<Rightarrow> Vec3" where
  "vec3 a b c = \<lparr> vx = a, vy = b, vz = c \<rparr>"

definition v_add :: "Vec3 \<Rightarrow> Vec3 \<Rightarrow> Vec3" where
  "v_add u w = vec3 (vx u + vx w) (vy u + vy w) (vz u + vz w)"

definition sub2 :: "Vec3 \<Rightarrow> Vec3 \<Rightarrow> Vec3" where
  "sub2 u w = vec3 (vx u - vx w) (vy u - vy w) (vz u - vz w)"

definition mulScalar :: "Vec3 \<Rightarrow> real \<Rightarrow> Vec3" where
  "mulScalar u k = vec3 (vx u * k) (vy u * k) (vz u * k)"

definition dot :: "Vec3 \<Rightarrow> Vec3 \<Rightarrow> real" where
  "dot u w = vx u * vx w + vy u * vy w + vz u * vz w"

definition vlength :: "Vec3 \<Rightarrow> real" where
  "vlength u = sqrt (vx u * vx u + vy u * vy u + vz u * vz u)"

definition transformVector :: "Quat \<Rightarrow> Vec3 \<Rightarrow> Vec3" where
  "transformVector q v =
     (let x = vx v; y = vy v; z = vz v;
          ix = qw q * x + qy q * z - qz q * y;
          iy = qw q * y + qz q * x - qx q * z;
          iz = qw q * z + qx q * y - qy q * x;
          iw = - qx q * x - qy q * y - qz q * z
      in vec3 (ix * qw q + iw * - qx q + iy * - qz q - iz * - qy q)
              (iy * qw q + iw * - qy q + iz * - qx q - ix * - qz q)
              (iz * qw q + iw * - qz q + ix * - qy q - iy * - qx q))"

definition clamp :: "real \<Rightarrow> real \<Rightarrow> real \<Rightarrow> real" where
  "clamp v lo hi = (if v \<ge> hi then hi else if v \<le> lo then lo else v)"

definition DEG_TO_RAD :: real where
  "DEG_TO_RAD = pi / 180"

definition RAD_TO_DEG :: real where
  "RAD_TO_DEG = 180 / pi"

definition atan2 :: "real \<Rightarrow> real \<Rightarrow> real" where
  "atan2 y x =
     (if x > 0 then arctan (y / x)
      else if x < 0 then (if y \<ge> 0 then arctan (y / x) + pi else arctan (y / x) - pi)
      else if y > 0 then pi / 2
      else if y < 0 then - (pi / 2)
      else 0)"

section \<open>The scene viewer (SceneViewer.tsx)\<close>

subsection \<open>State\<close>

datatype TargetType = Scene | CharacterTarget

text \<open>
  An engine entity is kept as its transform (position, Euler angles, scale), the asset it
  shows and the billboard mark. The entities of the viewer hang directly under the root,
  so local and world positions agree.
\<close>

record Entity =
  position :: Vec3
  eulerAngles :: Vec3
  localScale :: Vec3
  asset :: Url
  is2DBillboard :: bool

text \<open>
  The camera's orientation is what was last asked of the engine: Euler angles, or
  looking at a point.
\<close>

datatype Orientation = EulerAngles Vec3 | LookAt Vec3

record Camera =
  cam_position :: Vec3
  cam_orientation :: Orientation

record Gizmo =
  g_position :: Vec3
  g_rotation :: Quat

record OrbitParams =
  alpha :: real
  beta :: real
  radius :: real
  targetPivot :: Vec3

record Transforms =
  t_position :: Vec3
  t_rotation :: Vec3
  t_scale :: Vec3

text \<open>
  The refs and state cells of \<open>SceneViewer\<close>. \<open>cameraEntity\<close> is \<open>None\<close> until the
  engine has been initialised (\<open>appRef.current\<close> and \<open>cameraEntityRef.current\<close> are set
  together). \<open>rootSplats\<close> lists the assets of the splat entities attached to the scene
  root, that is, the ones drawn. \<open>pointerLocked\<close> says that the canvas holds the pointer
  lock. A state cell and the ref mirroring it (\<open>selectedTarget\<close>, \<open>activeCharacterId\<close>,
  \<open>isEditMode\<close>) are one field.
\<close>

record Viewer =
  cameraEntity :: "Camera option"
  splatEntity :: "Entity option"
  rootSplats :: "Url list"
  characterEntities :: "(string \<times> Entity) list"
  gizmoRoot :: "Gizmo option"
  draggedAxis :: "string option"
  dragStartPoint :: Vec3
  dragStartValue :: Vec3
  isOrbiting :: bool
  isFreeLooking :: bool
  orbitParams :: OrbitParams
  mouseLookEuler :: Vec3
  pointerLocked :: bool
  isEditMode :: bool
  selectedTarget :: "TargetType option"
  activeCharacterId :: "string option"
  transforms :: Transforms
  sceneLoadVersion :: nat

definition initialViewer :: Viewer where
  "initialViewer =
     \<lparr> cameraEntity = Some \<lparr> cam_position = vec3 0 (3 / 2) 4, cam_orientation = EulerAngles (vec3 0 0 0) \<rparr>,
       splatEntity = None, rootSplats = [], characterEntities = [], gizmoRoot = None,
       draggedAxis = None, dragStartPoint = vec3 0 0 0, dragStartValue = vec3 0 0 0,
       isOrbiting = False, isFreeLooking = False,
       orbitParams = \<lparr> alpha = 0, beta = 0, radius = 5, targetPivot = vec3 0 0 0 \<rparr>,
       mouseLookEuler = vec3 0 0 0, pointerLocked = False, isEditMode = False,
       selectedTarget = Some Scene, activeCharacterId = None,
       transforms = \<lparr> t_position = vec3 0 0 0, t_rotation = vec3 0 0 0, t_scale = vec3 1 1 1 \<rparr>,
       sceneLoadVersion = 0 \<rparr>"

subsection \<open>The active target\<close>

text \<open>
  The lookup that \<open>getTargetEntity\<close>, the update loop and the mouse handlers all
  repeat, and the write to the entity it finds.
\<close>

definition getTargetEntity :: "Viewer \<Rightarrow> Entity option" where
  "getTargetEntity v =
     (case selectedTarget v of
        None \<Rightarrow> None
      | Some Scene \<Rightarrow> splatEntity v
      | Some CharacterTarget \<Rightarrow>
          (case activeCharacterId v of
             None \<Rightarrow> None
           | Some cid \<Rightarrow> if cid = [] then None else map_of (characterEntities v) cid))"

definition updateTargetEntity :: "(Entity \<Rightarrow> Entity) \<Rightarrow> Viewer \<Rightarrow> Viewer" where
  "updateTargetEntity f v =
     (case selectedTarget v of
        None \<Rightarrow> v
      | Some Scene \<Rightarrow> v\<lparr> splatEntity := map_option f (splatEntity v) \<rparr>
      | Some CharacterTarget \<Rightarrow>
          (case activeCharacterId v of
             None \<Rightarrow> v
           | Some cid \<Rightarrow>
               v\<lparr> characterEntities :=
                    map (\<lambda>(k, e). if k = cid then (k, f e) else (k, e)) (characterEntities v) \<rparr>))"

subsection \<open>Orbit parameters\<close>

text \<open>
  A JavaScript division by zero yields NaN or an infinity. The numbers of this model are
  reals, so that outcome is \<open>None\<close>.
\<close>

definition jsDivide :: "real \<Rightarrow> real \<Rightarrow> real option" where
  "jsDivide a b = (if b = 0 then None else Some (a / b))"

text \<open>
  \<open>radiusOrEpsilon\<close> is the divisor \<open>(radius || 0.001)\<close>. \<open>orbitFromCamera\<close> is the
  computation that \<open>syncOrbitParamsToCamera\<close> and both orbit seeds of \<open>onMouseDown\<close>
  carry out on the camera's and the target's positions; it is \<open>None\<close> when the
  division in the elevation has a zero divisor. The real-valued orbit parameters cannot
  hold the NaN that the code would store then, and the callers leave them as they are.
\<close>

definition radiusOrEpsilon :: "real \<Rightarrow> real" where
  "radiusOrEpsilon r = (if r = 0 then 1 / 1000 else r)"

definition orbitFromCamera :: "Vec3 \<Rightarrow> Vec3 \<Rightarrow> OrbitParams option" where
  "orbitFromCamera camPos targetPos =
     (let vec = sub2 camPos targetPos;
          r = vlength vec
      in case jsDivide (vy vec) (radiusOrEpsilon r) of
           None \<Rightarrow> None
         | Some q \<Rightarrow>
             Some \<lparr> alpha = atan2 (vx vec) (vz vec) * RAD_TO_DEG,
                    beta = arcsin q * RAD_TO_DEG,
                    radius = r,
                    targetPivot = targetPos \<rparr>)"

definition setOrbitParams :: "OrbitParams option \<Rightarrow> Viewer \<Rightarrow> Viewer" where
  "setOrbitParams params v = (case params of None \<Rightarrow> v | Some p \<Rightarrow> v\<lparr> orbitParams := p \<rparr>)"

definition syncOrbitParamsToCamera :: "Viewer \<Rightarrow> Viewer" where
  "syncOrbitParamsToCamera v =
     (case getTargetEntity v of
        None \<Rightarrow> v
      | Some target \<Rightarrow>
          (case cameraEntity v of
             None \<Rightarrow> v
           | Some cam \<Rightarrow> setOrbitParams (orbitFromCamera (cam_position cam) (position target)) v))"

subsection \<open>onMouseMove\<close>

text \<open>
  A pointer move carries the pointer's displacement and, for a gizmo drag, the outcome
  of intersecting the pointer ray with the drag plane (the engine's \<open>screenToWorld\<close> and
  \<open>intersectsRay\<close>): \<open>Some p\<close> when the result \<open>t\<close> is not \<open>undefined\<close>, \<open>p\<close> being
  \<open>hitPoint\<close> after the call.
\<close>

record MouseMove =
  mm_dx :: real
  mm_dy :: real
  mm_hit :: "Vec3 option"

text \<open>The look branch, shared by the pointer-lock and the free-look case.\<close>

definition lookMove :: "MouseMove \<Rightarrow> Camera \<Rightarrow> Viewer \<Rightarrow> Viewer" where
  "lookMove ev camera v =
     (let lookSpeed = 2 / 10;
          ex = clamp (vx (mouseLookEuler v) - mm_dy ev * lookSpeed) (- 90) 90;
          ey = vy (mouseLookEuler v) - mm_dx ev * lookSpeed
      in v\<lparr> mouseLookEuler := (mouseLookEuler v)\<lparr> vx := ex, vy := ey \<rparr>,
            cameraEntity := Some (camera\<lparr> cam_orientation := EulerAngles (vec3 ex ey 0) \<rparr>) \<rparr>)"

definition orbitMove :: "MouseMove \<Rightarrow> Camera \<Rightarrow> Viewer \<Rightarrow> Viewer" where
  "orbitMove ev camera v =
     (let sensitivity = 4 / 10;
          alpha1 = alpha (orbitParams v) - mm_dx ev * sensitivity;
          beta1 = clamp (beta (orbitParams v) + mm_dy ev * sensitivity) (- 89) 89;
          r = radius (orbitParams v);
          pivot = targetPivot (orbitParams v);
          a = alpha1 * DEG_TO_RAD;
          b = beta1 * DEG_TO_RAD;
          x = r * cos b * sin a;
          z = r * cos b * cos a;
          y = r * sin b;
          newPos = v_add pivot (vec3 x y z)
      in v\<lparr> orbitParams := (orbitParams v)\<lparr> alpha := alpha1, beta := beta1 \<rparr>,
            cameraEntity := Some \<lparr> cam_position = newPos, cam_orientation = LookAt pivot \<rparr> \<rparr>)"

definition axisVector :: "string \<Rightarrow> Vec3" where
  "axisVector dir =
     (if dir = ''x'' then vec3 1 0 0
      else if dir = ''y'' then vec3 0 1 0
      else if dir = ''z'' then vec3 0 0 1
      else vec3 0 0 0)"

text \<open>
  The gizmo branch. The dragged axis is a tag such as \<open>''tx''\<close>: its first character is
  the mode, the rest the direction. The gizmo's rotation is read afresh at every move:
  between two pointer events the engine's per-frame update, which is not modelled here,
  copies the target's position and rotation to the gizmo, so \<open>gizmoRoot\<close> holds
  whatever the last frame left there.
\<close>

definition dragMove :: "MouseMove \<Rightarrow> Viewer \<Rightarrow> Viewer" where
  "dragMove ev v =
     (case draggedAxis v of
        None \<Rightarrow> v
      | Some axis \<Rightarrow>
          if axis = [] then v
          else
            (case gizmoRoot v of
               None \<Rightarrow> v
             | Some gizmo \<Rightarrow>
                 (let mode = take 1 axis;
                      dir = drop 1 axis
                  in case getTargetEntity v of
                       None \<Rightarrow> v
                     | Some target \<Rightarrow>
                         (case mm_hit ev of
                            None \<Rightarrow> v
                          | Some hitPoint \<Rightarrow>
                              (let axisVec = transformVector (g_rotation gizmo) (axisVector dir);
                                   deltaVec = sub2 hitPoint (dragStartPoint v);
                                   projectedDelta = dot axisVec deltaVec
                               in if mode = ''t'' then
                                    (let moveVec = mulScalar axisVec projectedDelta;
                                         newPos = v_add (dragStartValue v) moveVec
                                     in (updateTargetEntity (\<lambda>e. e\<lparr> position := newPos \<rparr>) v)
                                          \<lparr> transforms := (transforms v)\<lparr> t_position := newPos \<rparr> \<rparr>)
                                  else if mode = ''r'' then
                                    (let sensitivity = 20;
                                         angle = projectedDelta * sensitivity;
                                         d = dragStartValue v;
                                         newRot = vec3 (if dir = ''x'' then vx d + angle else vx d)
                                                       (if dir = ''y'' then vy d + angle else vy d)
                                                       (if dir = ''z'' then vz d + angle else vz d)
                                     in (updateTargetEntity (\<lambda>e. e\<lparr> eulerAngles := newRot \<rparr>) v)
                                          \<lparr> transforms := (transforms v)\<lparr> t_rotation := newRot \<rparr> \<rparr>)
                                  else if mode = ''s'' then
                                    (let sensitivity = 1;
                                         scaleFactor = 1 + projectedDelta * sensitivity;
                                         d = dragStartValue v;
                                         newScale = vec3 (if dir = ''x'' then vx d * scaleFactor else vx d)
                                                         (if dir = ''y'' then vy d * scaleFactor else vy d)
                                                         (if dir = ''z'' then vz d * scaleFactor else vz d)
                                     in (updateTargetEntity (\<lambda>e. e\<lparr> localScale := newScale \<rparr>) v)
                                          \<lparr> transforms := (transforms v)\<lparr> t_scale := newScale \<rparr> \<rparr>)
                                  else v)))))"

definition onMouseMove :: "Viewer \<Rightarrow> MouseMove \<Rightarrow> Viewer" where
  "onMouseMove v ev =
     (case cameraEntity v of
        None \<Rightarrow> v
      | Some camera \<Rightarrow>
          if pointerLocked v then lookMove ev camera v
          else if \<not> isEditMode v then v
          else if isFreeLooking v then lookMove ev camera v
          else if isOrbiting v then orbitMove ev camera v
          else dragMove ev v)"

subsection \<open>onMouseDown\<close>

text \<open>
  A press carries the button (0 is the left one) and the outcomes of the engine's ray
  tests: the tag of the closest gizmo part hit, \<open>hitPoint\<close> after intersecting the ray
  with the new drag plane, and the id of the closest character hit.
\<close>

record MouseDown =
  md_button :: nat
  md_gizmoHit :: "string option"
  md_planeHit :: Vec3
  md_characterHit :: "string option"

definition beginDrag :: "string \<Rightarrow> MouseDown \<Rightarrow> Viewer \<Rightarrow> Viewer" where
  "beginDrag hitAxis ev v =
     (let v1 = v\<lparr> draggedAxis := Some hitAxis \<rparr>
      in case getTargetEntity v of
           None \<Rightarrow> v1
         | Some target \<Rightarrow>
             (let v2 = v1\<lparr> dragStartPoint := md_planeHit ev \<rparr>;
                  v3 = (if startsWith hitAxis ''t'' then v2\<lparr> dragStartValue := position target \<rparr> else v2);
                  v4 = (if startsWith hitAxis ''r'' then v3\<lparr> dragStartValue := eulerAngles target \<rparr> else v3)
              in if startsWith hitAxis ''s'' then v4\<lparr> dragStartValue := localScale target \<rparr> else v4))"

text \<open>
  The press missed the gizmo. \<open>orbitActiveTarget\<close> is the case where no character was
  hit either; \<open>selectCharacter\<close> the case where one was.
\<close>

definition orbitActiveTarget :: "Camera \<Rightarrow> Viewer \<Rightarrow> Viewer" where
  "orbitActiveTarget camera v =
     (case getTargetEntity v of
        Some target \<Rightarrow>
          setOrbitParams (orbitFromCamera (cam_position camera) (position target))
            (v\<lparr> isOrbiting := True \<rparr>)
      | None \<Rightarrow> v\<lparr> isFreeLooking := True \<rparr>)"

definition selectCharacter :: "string \<Rightarrow> Camera \<Rightarrow> Viewer \<Rightarrow> Viewer" where
  "selectCharacter hitCharacterId camera v =
     (let v1 = v\<lparr> selectedTarget := Some CharacterTarget, activeCharacterId := Some hitCharacterId \<rparr>
      in case map_of (characterEntities v) hitCharacterId of
           None \<Rightarrow> v1
         | Some targetEntity \<Rightarrow>
             setOrbitParams (orbitFromCamera (cam_position camera) (position targetEntity))
               (v1\<lparr> isOrbiting := True \<rparr>))"

definition selectOrOrbit :: "MouseDown \<Rightarrow> Camera \<Rightarrow> Viewer \<Rightarrow> Viewer" where
  "selectOrOrbit ev camera v =
     (case md_characterHit ev of
        None \<Rightarrow> orbitActiveTarget camera v
      | Some hitCharacterId \<Rightarrow>
          if hitCharacterId = [] then orbitActiveTarget camera v
          else selectCharacter hitCharacterId camera v)"

text \<open>
  \<open>hitAxis\<close> stays null without a gizmo, and an empty tag counts as no hit
  (\<open>if (hitAxis)\<close>).
\<close>

definition onMouseDown :: "Viewer \<Rightarrow> MouseDown \<Rightarrow> Viewer" where
  "onMouseDown v ev =
     (if \<not> isEditMode v then v
      else case cameraEntity v of
        None \<Rightarrow> v
      | Some camera \<Rightarrow>
          if md_button ev \<noteq> 0 then v
          else
            (case (case gizmoRoot v of None \<Rightarrow> None | Some g \<Rightarrow> md_gizmoHit ev) of
               None \<Rightarrow> selectOrOrbit ev camera v
             | Some hitAxis \<Rightarrow>
                 if hitAxis = [] then selectOrOrbit ev camera v
                 else beginDrag hitAxis ev v))"

definition onMouseUp :: "Viewer \<Rightarrow> Viewer" where
  "onMouseUp v = v\<lparr> draggedAxis := None, isOrbiting := False, isFreeLooking := False \<rparr>"

subsection \<open>The splat loader\<close>

text \<open>
  The effect run when \<open>splatUrl\<close> changes destroys the current splat entity and starts
  loading the asset; it returns the asset whose \<open>ready\<close> callback is now pending.
  \<open>splatAssetReady\<close> is that callback.
\<close>

definition splatLoaderEffect :: "Url option \<Rightarrow> Viewer \<Rightarrow> Viewer \<times> Url option" where
  "splatLoaderEffect url v =
     (case url of
        None \<Rightarrow> (v, None)
      | Some u \<Rightarrow>
          if cameraEntity v = None then (v, None)
          else
            (case splatEntity v of
               None \<Rightarrow> (v, Some u)
             | Some old \<Rightarrow>
                 (v\<lparr> splatEntity := None, rootSplats := remove1 (asset old) (rootSplats v) \<rparr>, Some u)))"

definition splatAssetReady :: "Url \<Rightarrow> Viewer \<Rightarrow> Viewer" where
  "splatAssetReady u v =
     (let entity = \<lparr> position = vec3 0 0 0, eulerAngles = vec3 0 0 180, localScale = vec3 1 1 1,
                     asset = u, is2DBillboard = False \<rparr>;
          v1 = v\<lparr> rootSplats := rootSplats v @ [u], splatEntity := Some entity \<rparr>;
          v2 = (if \<not> isEditMode v1 \<and> cameraEntity v1 \<noteq> None then
                  v1\<lparr> cameraEntity := Some \<lparr> cam_position = vec3 0 1 4,
                                             cam_orientation = EulerAngles (vec3 0 0 0) \<rparr>,
                      mouseLookEuler := vec3 0 0 0 \<rparr>
                else v1)
      in v2\<lparr> sceneLoadVersion := sceneLoadVersion v2 + 1 \<rparr>)"

subsection \<open>The character manager: removing deleted characters\<close>

text \<open>
  The first half of the effect run when the character list changes: the loop over the
  entity map that destroys every entity whose id is no longer listed. \<open>act\<close> and \<open>sel\<close>
  are the values of \<open>activeCharacterId\<close> and \<open>selectedTarget\<close> the effect closed over.
  The second half starts asset loads and changes nothing by itself.
\<close>

fun removeDeleted :: "string list \<Rightarrow> string option \<Rightarrow> TargetType option \<Rightarrow> (string \<times> Entity) list
                      \<Rightarrow> Viewer \<Rightarrow> Viewer" where
  "removeDeleted currentIds act sel [] v = v"
| "removeDeleted currentIds act sel ((cid, entity) # rest) v =
     removeDeleted currentIds act sel rest
       (if cid \<notin> set currentIds then
          (let v1 = v\<lparr> characterEntities := filter (\<lambda>(k, e). k \<noteq> cid) (characterEntities v) \<rparr>
           in if act = Some cid then
                (let v2 = v1\<lparr> activeCharacterId := None \<rparr>
                 in if sel = Some CharacterTarget then v2\<lparr> selectedTarget := None \<rparr> else v2)
              else v1)
        else v)"

definition characterManagerEffect :: "Character list \<Rightarrow> Viewer \<Rightarrow> Viewer" where
  "characterManagerEffect chars v =
     (if cameraEntity v = None then v
      else removeDeleted (map char_id chars) (activeCharacterId v) (selectedTarget v)
             (characterEntities v) v)"

section \<open>Example inputs\<close>

text \<open>
  Concrete files, states and events at which the properties below are evaluated.
\<close>

definition notesFile :: File where
  "notesFile = \<lparr> file_name = ''notes.txt'', file_type = ''text/plain'', file_bytes = ''hello'' \<rparr>"

text \<open>An archive holding nothing but a text file.\<close>

definition txtArchive :: File where
  "txtArchive = \<lparr> file_name = ''scene.spz'', file_type = [], file_bytes = ''PK'' \<rparr>"

definition txtUnzip :: Unzip where
  "txtUnzip f = Inr [(''readme.txt'', ''hello'')]"

text \<open>Scene A is an archive holding \<open>a.ply\<close>; scene B is a plain \<open>.ply\<close> file.\<close>

definition sceneA :: File where
  "sceneA = \<lparr> file_name = ''a.spz'', file_type = [], file_bytes = ''zipped A'' \<rparr>"

definition sceneB :: File where
  "sceneB = \<lparr> file_name = ''b.ply'', file_type = [], file_bytes = ''scene B'' \<rparr>"

definition unzipA :: Unzip where
  "unzipA f = Inr [(''a.ply'', ''scene A'')]"

text \<open>The application once the canvas is mounted.\<close>

definition readyApp :: AppState where
  "readyApp = initialApp\<lparr> captureRef := Some ''data:image/png;base64,AAAA'' \<rparr>"

text \<open>The loader effect for a scene URL followed by the asset's \<open>ready\<close> callback.\<close>

definition loadScene :: "Url \<Rightarrow> Viewer \<Rightarrow> Viewer" where
  "loadScene u v = splatAssetReady u (fst (splatLoaderEffect (Some u) v))"

definition identityQuat :: Quat where
  "identityQuat = \<lparr> qx = 0, qy = 0, qz = 0, qw = 1 \<rparr>"

text \<open>The rotation by 90 degrees about the z axis.\<close>

definition quarterTurnZ :: Quat where
  "quarterTurnZ = \<lparr> qx = 0, qy = 0, qz = sqrt 2 / 2, qw = sqrt 2 / 2 \<rparr>"

definition plainScene :: Entity where
  "plainScene = \<lparr> position = vec3 0 0 0, eulerAngles = vec3 0 0 0, localScale = vec3 1 1 1,
                  asset = ObjectURL 0, is2DBillboard = False \<rparr>"

text \<open>
  Edit mode with the scene selected and a gizmo on it: \<open>plainViewer\<close> with the scene
  unrotated, \<open>turnedViewer\<close> with the scene (and so the gizmo) turned by 90 degrees
  about z.
\<close>

definition plainViewer :: Viewer where
  "plainViewer = initialViewer\<lparr> isEditMode := True, splatEntity := Some plainScene,
                   rootSplats := [ObjectURL 0],
                   gizmoRoot := Some \<lparr> g_position = vec3 0 0 0, g_rotation = identityQuat \<rparr> \<rparr>"

definition turnedViewer :: Viewer where
  "turnedViewer = initialViewer\<lparr> isEditMode := True,
                   splatEntity := Some (plainScene\<lparr> eulerAngles := vec3 0 0 90 \<rparr>),
                   rootSplats := [ObjectURL 0],
                   gizmoRoot := Some \<lparr> g_position = vec3 0 0 0, g_rotation = quarterTurnZ \<rparr> \<rparr>"

text \<open>
  A left-button press on the gizmo part with the given tag, the pointer ray meeting the
  drag plane at the origin; and a move whose ray meets the drag plane at a given point.
\<close>

definition pressHandle :: "string \<Rightarrow> MouseDown" where
  "pressHandle tag = \<lparr> md_button = 0, md_gizmoHit = Some tag, md_planeHit = vec3 0 0 0,
                       md_characterHit = None \<rparr>"

definition moveTo :: "Vec3 \<Rightarrow> MouseMove" where
  "moveTo p = \<lparr> mm_dx = 0, mm_dy = 0, mm_hit = Some p \<rparr>"

text \<open>
  The camera sitting exactly on the selected scene, and a left-button press that hits
  neither the gizmo nor a character.
\<close>

definition coincidentViewer :: Viewer where
  "coincidentViewer = plainViewer\<lparr> cameraEntity := Some \<lparr> cam_position = vec3 0 0 0,
                                       cam_orientation = EulerAngles (vec3 0 0 0) \<rparr> \<rparr>"

definition pressBackground :: MouseDown where
  "pressBackground = \<lparr> md_button = 0, md_gizmoHit = None, md_planeHit = vec3 0 0 0,
                        md_characterHit = None \<rparr>"



text \<open>One loaded character, selected.\<close>

definition heroChar :: Character where
  "heroChar = \<lparr> char_id = ''hero0001'', char_type = Type3d, char_url = ObjectURL 0,
                char_name = ''hero.glb'' \<rparr>"

definition heroEntity :: Entity where
  "heroEntity = \<lparr> position = vec3 0 0 0, eulerAngles = vec3 0 0 0, localScale = vec3 1 1 1,
                  asset = ObjectURL 0, is2DBillboard = False \<rparr>"

definition heroApp :: AppState where
  "heroApp = initialApp\<lparr> characters := [heroChar] \<rparr>"

definition heroViewer :: Viewer where
  "heroViewer = initialViewer\<lparr> characterEntities := [(''hero0001'', heroEntity)],
                  activeCharacterId := Some ''hero0001'',
                  selectedTarget := Some CharacterTarget \<rparr>"

section \<open>Properties of the application component\<close>

lemmas string_eval = endsWith_def startsWith_def toLowerCase_def lowerChar_def Let_def

subsection \<open>Generation\<close>

text \<open>
  C6. When the scene capture returns none, \<open>handleGenerate\<close> only sets the error
  message "Failed to capture 3D scene.": a generating flag that was false stays false
  and no service call is started.
\<close>

theorem generate_without_capture_aborts:
  assumes "captureScene s = None" and "\<not> isGenerating (generationState s)"
  shows "error (generationState (handleGenerate prompt s)) = Some ''Failed to capture 3D scene.''
         \<and> \<not> isGenerating (generationState (handleGenerate prompt s))
         \<and> serviceCalls (handleGenerate prompt s) = serviceCalls s"
  using assms by (simp add: handleGenerate_def)

theorem generate_without_capture_aborts_witness:
  "captureScene initialApp = None \<and> \<not> isGenerating (generationState initialApp)
   \<and> error (generationState (handleGenerate ''a cat on the sofa'' initialApp))
        = Some ''Failed to capture 3D scene.''
   \<and> \<not> isGenerating (generationState (handleGenerate ''a cat on the sofa'' initialApp))
   \<and> serviceCalls (handleGenerate ''a cat on the sofa'' initialApp) = []"
proof -
  have a: "captureScene initialApp = None" by (simp add: captureScene_def initialApp_def)
  have b: "\<not> isGenerating (generationState initialApp)" by (simp add: initialApp_def)
  have c: "serviceCalls initialApp = []" by (simp add: initialApp_def)
  from generate_without_capture_aborts[OF a b, of "''a cat on the sofa''"] a b c
  show ?thesis by simp
qed

lemma handleGenerate_calls:
  "\<not> isGenerating (generationState s) \<Longrightarrow>
     length (serviceCalls (handleGenerate prompt s))
       = length (serviceCalls s) + (if isGenerating (generationState (handleGenerate prompt s)) then 1 else 0)"
  by (simp add: handleGenerate_def Let_def split: option.splits)

lemma submitClick_calls:
  "length (serviceCalls s) = answered + (if isGenerating (generationState s) then 1 else 0) \<Longrightarrow>
   length (serviceCalls (submitClick prompt s))
     = answered + (if isGenerating (generationState (submitClick prompt s)) then 1 else 0)"
proof (cases "isGenerating (generationState s)")
  case True
  then have "submitClick prompt s = s" by (simp add: submitClick_def submitDisabled_def)
  then show "length (serviceCalls s) = answered + (if isGenerating (generationState s) then 1 else 0) \<Longrightarrow> ?thesis"
    by simp
next
  case False
  assume inv: "length (serviceCalls s) = answered + (if isGenerating (generationState s) then 1 else 0)"
  show ?thesis
  proof (cases "trim prompt = []")
    case True
    then have "submitClick prompt s = s" by (simp add: submitClick_def submitDisabled_def)
    with inv show ?thesis by simp
  next
    case nonempty: False
    then have "submitClick prompt s = handleGenerate prompt s"
      using False by (simp add: submitClick_def submitDisabled_def handleSubmit_def)
    with handleGenerate_calls[OF False, of prompt] inv False show ?thesis by simp
  qed
qed

lemma panelStep_calls:
  assumes "length (serviceCalls s) = answered + (if isGenerating (generationState s) then 1 else 0)"
    and "panelStep (s, answered) e = (s', answered')"
  shows "length (serviceCalls s') = answered' + (if isGenerating (generationState s') then 1 else 0)"
proof (cases e)
  case (SubmitClick prompt)
  with assms(2) have "s' = submitClick prompt s" "answered' = answered" by auto
  with submitClick_calls[OF assms(1), of prompt] show ?thesis by simp
next
  case (ServiceResolved img)
  with assms show ?thesis
    by (auto simp: generateResolved_def split: if_splits)
next
  case (ServiceRejected msg)
  with assms show ?thesis
    by (auto simp: generateRejected_def split: if_splits)
qed

lemma panelRun_calls:
  assumes "length (serviceCalls s) = answered + (if isGenerating (generationState s) then 1 else 0)"
    and "foldl panelStep (s, answered) evs = (s', answered')"
  shows "length (serviceCalls s') = answered' + (if isGenerating (generationState s') then 1 else 0)"
  using assms
proof (induction evs arbitrary: s answered)
  case Nil
  then show ?case by simp
next
  case (Cons e evs)
  obtain s1 a1 where st: "panelStep (s, answered) e = (s1, a1)" by (cases "panelStep (s, answered) e")
  from panelStep_calls[OF Cons.prems(1) st]
  have inv1: "length (serviceCalls s1) = a1 + (if isGenerating (generationState s1) then 1 else 0)" .
  from Cons.prems(2) have "foldl panelStep (s1, a1) evs = (s', answered')" by (simp add: st)
  from Cons.IH[OF inv1 this] show ?case .
qed

text \<open>
  C3. Starting with no request in flight, after any sequence of submit clicks and
  service answers at most one service call is outstanding, and the busy flag is set
  exactly while one is. While the flag is set, a submit click changes nothing: it does
  not run the generate operation and starts no second service call.
\<close>

theorem one_generation_in_flight:
  assumes "\<not> isGenerating (generationState s)"
    and "answered = length (serviceCalls s)"
    and "foldl panelStep (s, answered) evs = (s', answered')"
  shows "length (serviceCalls s') - answered' \<le> 1
         \<and> (isGenerating (generationState s') \<longrightarrow>
              length (serviceCalls s') - answered' = 1
              \<and> submitClick prompt s' = s'
              \<and> serviceCalls (submitClick prompt s') = serviceCalls s')"
proof -
  have "length (serviceCalls s) = answered + (if isGenerating (generationState s) then 1 else 0)"
    using assms(1,2) by simp
  from panelRun_calls[OF this assms(3)]
  have inv: "length (serviceCalls s') = answered' + (if isGenerating (generationState s') then 1 else 0)" .
  have "isGenerating (generationState s') \<Longrightarrow> submitClick prompt s' = s'"
    by (simp add: submitClick_def submitDisabled_def)
  with inv show ?thesis by auto
qed

theorem one_generation_in_flight_witness:
  "\<not> isGenerating (generationState readyApp) \<and> 0 = length (serviceCalls readyApp)
   \<and> foldl panelStep (readyApp, 0) [SubmitClick ''a cat'', SubmitClick ''a dog'']
       = (handleGenerate ''a cat'' readyApp, 0)
   \<and> isGenerating (generationState (handleGenerate ''a cat'' readyApp))
   \<and> length (serviceCalls (handleGenerate ''a cat'' readyApp)) - 0 = 1
   \<and> serviceCalls (submitClick ''a bird'' (handleGenerate ''a cat'' readyApp))
       = serviceCalls (handleGenerate ''a cat'' readyApp)"
proof -
  have a: "\<not> isGenerating (generationState readyApp)" by (simp add: readyApp_def initialApp_def)
  have b: "0 = length (serviceCalls readyApp)" by (simp add: readyApp_def initialApp_def)
  have g: "isGenerating (generationState (handleGenerate ''a cat'' readyApp))"
    by (simp add: handleGenerate_def readyApp_def initialApp_def captureScene_def)
  have t: "trim ''a cat'' \<noteq> []" by (simp add: trim_def isWhiteSpace_def)
  have c: "foldl panelStep (readyApp, 0) [SubmitClick ''a cat'', SubmitClick ''a dog'']
             = (handleGenerate ''a cat'' readyApp, 0)"
    using a g t by (simp add: submitClick_def submitDisabled_def handleSubmit_def)
  from one_generation_in_flight[OF a b c, of "''a bird''"] a b c g show ?thesis by simp
qed

subsection \<open>Uploads\<close>

text \<open>
  C10. A character file that is neither a 3D model (name ending in .glb or .gltf) nor
  an image (MIME type starting with image/) is ignored: the state, with its character
  list and error message, is unchanged and no reader callback is pending.
\<close>

theorem upload_character_other_file_ignored:
  "\<not> is3D file \<Longrightarrow> \<not> isImage file \<Longrightarrow> handleUploadCharacter newId file s = (s, None)"
  by (simp add: handleUploadCharacter_def)

theorem upload_character_other_file_ignored_witness:
  "\<not> is3D notesFile \<and> \<not> isImage notesFile
   \<and> handleUploadCharacter ''1a2b3c4d'' notesFile initialApp = (initialApp, None)"
proof -
  have a: "\<not> is3D notesFile" by (simp add: is3D_def notesFile_def string_eval)
  have b: "\<not> isImage notesFile" by (simp add: isImage_def notesFile_def startsWith_def)
  from upload_character_other_file_ignored[OF a b] a b show ?thesis by simp
qed

lemma findInnerFile_None:
  assumes "\<forall>(n, b) \<in> set unzipped.
             \<not> endsWith (toLowerCase n) ''.splat'' \<and> \<not> endsWith (toLowerCase n) ''.ksplat''
             \<and> \<not> endsWith (toLowerCase n) ''.ply''"
  shows "findInnerFile unzipped = None"
proof -
  have "find (\<lambda>(n, b). endsWith (toLowerCase n) ''.splat'' \<or> endsWith (toLowerCase n) ''.ksplat'')
          unzipped = None"
    using assms by (auto simp: find_None_iff)
  moreover have "find (\<lambda>(n, b). endsWith (toLowerCase n) ''.ply'') unzipped = None"
    using assms by (auto simp: find_None_iff)
  ultimately show ?thesis by (simp add: findInnerFile_def)
qed

text \<open>
  C7. Loading an .spz archive none of whose entries ends in .splat, .ksplat or .ply
  fails with the message "Failed to load file: No valid .splat or .ply file found inside
  SPZ archive"; the scene URL is cleared, loading has ended, and no object URL was
  created.
\<close>

theorem upload_archive_without_scene_fails:
  assumes spz: "isSpz file"
    and unz: "unzip file = Inr unzipped"
    and none: "\<forall>(n, b) \<in> set unzipped.
             \<not> endsWith (toLowerCase n) ''.splat'' \<and> \<not> endsWith (toLowerCase n) ''.ksplat''
             \<and> \<not> endsWith (toLowerCase n) ''.ply''"
  shows "error (generationState (handleUploadSplat unzip file s))
           = Some ''Failed to load file: No valid .splat or .ply file found inside SPZ archive''
         \<and> splatUrl (handleUploadSplat unzip file s) = None
         \<and> isLoading (handleUploadSplat unzip file s) = False
         \<and> objectUrls (handleUploadSplat unzip file s) = objectUrls s"
  using spz unz findInnerFile_None[OF none]
  by (simp add: handleUploadSplat_def handleUploadSplat_start_def handleUploadSplat_resume_def
      uploadSplatFailed_def)

theorem upload_archive_without_scene_fails_witness:
  "isSpz txtArchive \<and> txtUnzip txtArchive = Inr [(''readme.txt'', ''hello'')]
   \<and> error (generationState (handleUploadSplat txtUnzip txtArchive initialApp))
           = Some ''Failed to load file: No valid .splat or .ply file found inside SPZ archive''
   \<and> splatUrl (handleUploadSplat txtUnzip txtArchive initialApp) = None
   \<and> isLoading (handleUploadSplat txtUnzip txtArchive initialApp) = False"
proof -
  have a: "isSpz txtArchive" by (simp add: isSpz_def txtArchive_def string_eval)
  have b: "txtUnzip txtArchive = Inr [(''readme.txt'', ''hello'')]" by (simp add: txtUnzip_def)
  have c: "\<forall>(n, b) \<in> set [(''readme.txt'', ''hello'')].
             \<not> endsWith (toLowerCase n) ''.splat'' \<and> \<not> endsWith (toLowerCase n) ''.ksplat''
             \<and> \<not> endsWith (toLowerCase n) ''.ply''"
    by (simp add: string_eval)
  from upload_archive_without_scene_fails[of txtArchive txtUnzip _ initialApp, OF a b c] a b
  show ?thesis by simp
qed

text \<open>
  C2, as the claim states it, fails. Scene A (an archive) is uploaded, then scene B (a
  plain file); B's handler runs to its end at once and A's archive is unzipped
  afterwards. The scene URL ends as A's: object URL 1, whose blob is A's scene, and that
  is the scene the viewer ends up drawing.
\<close>

theorem stale_upload_counterexample:
  "splatUrl (runUploads unzipA [Upload sceneA, Upload sceneB, Unzipped sceneA] initialApp)
     = Some (ObjectURL 1)
   \<and> objectUrls (runUploads unzipA [Upload sceneA, Upload sceneB, Unzipped sceneA] initialApp)
     = [''scene B'', ''scene A'']
   \<and> map_option asset (splatEntity (loadScene (ObjectURL 1) (loadScene (ObjectURL 0) initialViewer)))
     = Some (ObjectURL 1)
   \<and> rootSplats (loadScene (ObjectURL 1) (loadScene (ObjectURL 0) initialViewer)) = [ObjectURL 1]"
proof -
  have a: "splatUrl (runUploads unzipA [Upload sceneA, Upload sceneB, Unzipped sceneA] initialApp)
             = Some (ObjectURL 1)
           \<and> objectUrls (runUploads unzipA [Upload sceneA, Upload sceneB, Unzipped sceneA] initialApp)
             = [''scene B'', ''scene A'']"
    by (simp add: runUploads_def handleUploadSplat_start_def handleUploadSplat_resume_def
        uploadSplatDone_def createObjectURL_def isSpz_def sceneA_def sceneB_def unzipA_def
        findInnerFile_def initialApp_def string_eval)
  have b: "map_option asset (splatEntity (loadScene (ObjectURL 1) (loadScene (ObjectURL 0) initialViewer)))
             = Some (ObjectURL 1)
           \<and> rootSplats (loadScene (ObjectURL 1) (loadScene (ObjectURL 0) initialViewer)) = [ObjectURL 1]"
    by (simp add: loadScene_def splatLoaderEffect_def splatAssetReady_def initialViewer_def Let_def)
  from a b show ?thesis by simp
qed

text \<open>
  C2, amended. The completion of a load is applied without any check against what was
  requested since: when an archive has been unzipped and holds a scene file, the scene
  URL becomes the new object URL of that file whatever the state, and the viewer's
  \<open>ready\<close> callback makes the entity of its asset the scene entity whatever the viewer
  shows. The scene that ends up visible is the one whose load completed last.
\<close>

theorem load_completion_always_applies:
  assumes "unzip file = Inr unzipped"
    and "findInnerFile unzipped = Some (innerFile, bytes)"
  shows "splatUrl (handleUploadSplat_resume unzip file s) = Some (ObjectURL (length (objectUrls s)))
         \<and> objectUrls (handleUploadSplat_resume unzip file s) = objectUrls s @ [bytes]
         \<and> map_option asset (splatEntity (splatAssetReady u v)) = Some u
         \<and> u \<in> set (rootSplats (splatAssetReady u v))"
  using assms
  by (simp add: handleUploadSplat_resume_def createObjectURL_def uploadSplatDone_def
      splatAssetReady_def Let_def)

theorem load_completion_always_applies_witness:
  "unzipA sceneA = Inr [(''a.ply'', ''scene A'')]
   \<and> findInnerFile [(''a.ply'', ''scene A'')] = Some (''a.ply'', ''scene A'')
   \<and> splatUrl (runUploads unzipA [Upload sceneA, Upload sceneB] initialApp) = Some (ObjectURL 0)
   \<and> splatUrl (handleUploadSplat_resume unzipA sceneA
                 (runUploads unzipA [Upload sceneA, Upload sceneB] initialApp))
       = Some (ObjectURL 1)
   \<and> objectUrls (handleUploadSplat_resume unzipA sceneA
                   (runUploads unzipA [Upload sceneA, Upload sceneB] initialApp))
       = [''scene B'', ''scene A'']
   \<and> map_option asset (splatEntity (splatAssetReady (ObjectURL 1) (loadScene (ObjectURL 0) initialViewer)))
       = Some (ObjectURL 1)"
proof -
  have a: "unzipA sceneA = Inr [(''a.ply'', ''scene A'')]" by (simp add: unzipA_def)
  have b: "findInnerFile [(''a.ply'', ''scene A'')] = Some (''a.ply'', ''scene A'')"
    by (simp add: findInnerFile_def string_eval)
  have c: "splatUrl (runUploads unzipA [Upload sceneA, Upload sceneB] initialApp) = Some (ObjectURL 0)
           \<and> objectUrls (runUploads unzipA [Upload sceneA, Upload sceneB] initialApp) = [''scene B'']"
    by (simp add: runUploads_def handleUploadSplat_start_def uploadSplatDone_def
        createObjectURL_def isSpz_def sceneA_def sceneB_def initialApp_def string_eval)
  from load_completion_always_applies[of unzipA sceneA _ _ _
         "runUploads unzipA [Upload sceneA, Upload sceneB] initialApp"
         "ObjectURL 1" "loadScene (ObjectURL 0) initialViewer", OF a b] a b c
  show ?thesis by simp
qed

section \<open>Properties of the scene viewer\<close>

subsection \<open>Orbit parameters\<close>

lemma vlength_zero: "vlength u = 0 \<Longrightarrow> vx u = 0 \<and> vy u = 0 \<and> vz u = 0"
proof -
  assume "vlength u = 0"
  then have "vx u * vx u + vy u * vy u + vz u * vz u = 0"
    by (simp add: vlength_def)
  moreover have "0 \<le> vx u * vx u" "0 \<le> vy u * vy u" "0 \<le> vz u * vz u" by simp_all
  ultimately have "vx u * vx u = 0 \<and> vy u * vy u = 0 \<and> vz u * vz u = 0" by linarith
  then show ?thesis by simp
qed

lemma vy_le_vlength: "\<bar>vy u\<bar> \<le> vlength u"
proof -
  have "vy u * vy u \<le> vx u * vx u + vy u * vy u + vz u * vz u"
    using zero_le_square[of "vx u"] zero_le_square[of "vz u"] by linarith
  then have "sqrt (vy u * vy u) \<le> sqrt (vx u * vx u + vy u * vy u + vz u * vz u)"
    by (rule real_sqrt_le_mono)
  then show ?thesis by (simp add: vlength_def)
qed

lemma deg_rad: "x * RAD_TO_DEG * DEG_TO_RAD = x"
  by (simp add: RAD_TO_DEG_def DEG_TO_RAD_def)

lemma orbit_height:
  "map_option (\<lambda>p. radius p * sin (beta p * DEG_TO_RAD)) (orbitFromCamera camPos targetPos)
     = Some (vy (sub2 camPos targetPos))"
proof (cases "vlength (sub2 camPos targetPos) = 0")
  case True
  from vlength_zero[OF True] have "vy (sub2 camPos targetPos) = 0" by simp
  then show ?thesis
    using True by (simp add: orbitFromCamera_def jsDivide_def radiusOrEpsilon_def Let_def)
next
  case False
  let ?r = "vlength (sub2 camPos targetPos)"
  let ?y = "vy (sub2 camPos targetPos)"
  have pos: "0 < ?r"
    using False vy_le_vlength[of "sub2 camPos targetPos"] by linarith
  have "- ?r \<le> ?y" "?y \<le> ?r"
    using vy_le_vlength[of "sub2 camPos targetPos"] by linarith+
  then have "- 1 \<le> ?y / ?r" "?y / ?r \<le> 1"
    using pos by (simp_all add: field_simps)
  then have "sin (arcsin (?y / ?r)) = ?y / ?r"
    by (rule sin_arcsin)
  then have "?r * sin (arcsin (?y / ?r) * RAD_TO_DEG * DEG_TO_RAD) = ?y"
    using pos by (simp add: deg_rad)
  then show ?thesis
    using False by (simp add: orbitFromCamera_def jsDivide_def radiusOrEpsilon_def Let_def)
qed

text \<open>
  C9, as the claim states it, fails: the radius does not default to an epsilon. With the
  camera exactly on the target, the orbit parameters derived by
  \<open>syncOrbitParamsToCamera\<close> and by the orbit seed of \<open>onMouseDown\<close> hold the radius 0.
\<close>

theorem orbit_radius_stays_zero_counterexample:
  "map_option radius (orbitFromCamera (vec3 0 0 0) (vec3 0 0 0)) = Some 0
   \<and> radius (orbitParams (syncOrbitParamsToCamera coincidentViewer)) = 0
   \<and> radius (orbitParams (onMouseDown coincidentViewer pressBackground)) = 0"
proof -
  have o: "orbitFromCamera (vec3 0 0 0) (vec3 0 0 0)
             = Some \<lparr> alpha = 0, beta = 0, radius = 0, targetPivot = vec3 0 0 0 \<rparr>"
    by (simp add: orbitFromCamera_def jsDivide_def radiusOrEpsilon_def vlength_def sub2_def
        vec3_def atan2_def Let_def)
  have t: "getTargetEntity coincidentViewer = Some plainScene"
    by (simp add: getTargetEntity_def coincidentViewer_def plainViewer_def initialViewer_def)
  have c: "cameraEntity coincidentViewer = Some \<lparr> cam_position = vec3 0 0 0,
                                       cam_orientation = EulerAngles (vec3 0 0 0) \<rparr>"
    by (simp add: coincidentViewer_def)
  have p: "position plainScene = vec3 0 0 0" by (simp add: plainScene_def)
  have s: "radius (orbitParams (syncOrbitParamsToCamera coincidentViewer)) = 0"
    by (simp add: syncOrbitParamsToCamera_def t c p o setOrbitParams_def)
  have e: "isEditMode coincidentViewer" "gizmoRoot coincidentViewer \<noteq> None"
    by (simp_all add: coincidentViewer_def plainViewer_def initialViewer_def)
  have d: "radius (orbitParams (onMouseDown coincidentViewer pressBackground)) = 0"
    using e
    by (auto simp: onMouseDown_def c pressBackground_def selectOrOrbit_def orbitActiveTarget_def
        t p o setOrbitParams_def)
  from o s d show ?thesis by simp
qed

text \<open>
  C9, amended. It is the divisor of the elevation computation that defaults to the
  epsilon 0.001, not the radius. The elevation computation therefore never divides by
  zero, for any positions of camera and target. At zero distance, where dividing by the
  radius itself would divide by zero, the divisor is 0.001, the elevation is 0 and the
  radius kept in the orbit parameters is 0. The elevation derived is the right one:
  radius times its sine is the camera's height over the target. And
  \<open>syncOrbitParamsToCamera\<close> stores exactly the parameters derived.
\<close>

theorem orbit_elevation_never_divides_by_zero:
  "orbitFromCamera camPos targetPos \<noteq> None
   \<and> map_option (\<lambda>p. radius p * sin (beta p * DEG_TO_RAD)) (orbitFromCamera camPos targetPos)
       = Some (vy (sub2 camPos targetPos))
   \<and> (getTargetEntity v = Some target \<and> cameraEntity v = Some cam \<longrightarrow>
        Some (orbitParams (syncOrbitParamsToCamera v))
          = orbitFromCamera (cam_position cam) (position target))
   \<and> (vlength (sub2 camPos targetPos) = 0 \<longrightarrow>
        jsDivide (vy (sub2 camPos targetPos)) (vlength (sub2 camPos targetPos)) = None
        \<and> radiusOrEpsilon (vlength (sub2 camPos targetPos)) = 1 / 1000
        \<and> map_option beta (orbitFromCamera camPos targetPos) = Some 0
        \<and> map_option radius (orbitFromCamera camPos targetPos) = Some 0)"
proof -
  have a: "orbitFromCamera c t \<noteq> None" for c t
    by (simp add: orbitFromCamera_def jsDivide_def radiusOrEpsilon_def Let_def)
  have s: "Some (orbitParams (syncOrbitParamsToCamera v))
             = orbitFromCamera (cam_position cam) (position target)"
    if "getTargetEntity v = Some target" "cameraEntity v = Some cam"
  proof -
    from a[of "cam_position cam" "position target"]
    obtain p where "orbitFromCamera (cam_position cam) (position target) = Some p" by auto
    with that show ?thesis by (simp add: syncOrbitParamsToCamera_def setOrbitParams_def)
  qed
  have b: "map_option beta (orbitFromCamera camPos targetPos) = Some 0
           \<and> map_option radius (orbitFromCamera camPos targetPos) = Some 0"
    if z: "vlength (sub2 camPos targetPos) = 0"
  proof -
    from vlength_zero[OF z] have "vy (sub2 camPos targetPos) = 0" by simp
    then show ?thesis
      using z by (simp add: orbitFromCamera_def jsDivide_def radiusOrEpsilon_def Let_def)
  qed
  show ?thesis using a s b orbit_height[of camPos targetPos]
    by (simp add: radiusOrEpsilon_def jsDivide_def)
qed

theorem orbit_elevation_never_divides_by_zero_witness:
  "getTargetEntity coincidentViewer = Some plainScene
   \<and> cameraEntity coincidentViewer
       = Some \<lparr> cam_position = vec3 0 0 0, cam_orientation = EulerAngles (vec3 0 0 0) \<rparr>
   \<and> vlength (sub2 (vec3 0 0 0) (vec3 0 0 0)) = 0
   \<and> orbitFromCamera (vec3 0 0 0) (vec3 0 0 0) \<noteq> None
   \<and> radiusOrEpsilon (vlength (sub2 (vec3 0 0 0) (vec3 0 0 0))) = 1 / 1000
   \<and> map_option beta (orbitFromCamera (vec3 0 0 0) (vec3 0 0 0)) = Some 0
   \<and> Some (orbitParams (syncOrbitParamsToCamera coincidentViewer))
       = orbitFromCamera (vec3 0 0 0) (vec3 0 0 0)"
proof -
  have z: "vlength (sub2 (vec3 0 0 0) (vec3 0 0 0)) = 0"
    by (simp add: vlength_def sub2_def vec3_def)
  have t: "getTargetEntity coincidentViewer = Some plainScene"
    by (simp add: getTargetEntity_def coincidentViewer_def plainViewer_def initialViewer_def)
  have c: "cameraEntity coincidentViewer
             = Some \<lparr> cam_position = vec3 0 0 0, cam_orientation = EulerAngles (vec3 0 0 0) \<rparr>"
    by (simp add: coincidentViewer_def)
  have p: "position plainScene = vec3 0 0 0" by (simp add: plainScene_def)
  from orbit_elevation_never_divides_by_zero[of "vec3 0 0 0" "vec3 0 0 0" coincidentViewer
         plainScene "\<lparr> cam_position = vec3 0 0 0, cam_orientation = EulerAngles (vec3 0 0 0) \<rparr>"]
    z t c p
  show ?thesis by simp
qed

subsection \<open>Orbiting\<close>







subsection \<open>Removing a character\<close>

lemma removeDeleted_active_None:
  "activeCharacterId v = None \<Longrightarrow> activeCharacterId (removeDeleted ids act sel es v) = None"
  by (induction es arbitrary: v) (auto simp: Let_def)

lemma removeDeleted_selected_None:
  "selectedTarget v = None \<Longrightarrow> selectedTarget (removeDeleted ids act sel es v) = None"
  by (induction es arbitrary: v) (auto simp: Let_def)

lemma removeDeleted_keys:
  "rid \<notin> fst ` set (characterEntities v)
     \<Longrightarrow> rid \<notin> fst ` set (characterEntities (removeDeleted ids act sel es v))"
proof (induction es arbitrary: v)
  case Nil
  then show ?case by simp
next
  case (Cons p es)
  obtain cid entity where p: "p = (cid, entity)" by (cases p)
  let ?v' = "if cid \<notin> set ids then
          (let v1 = v\<lparr> characterEntities := filter (\<lambda>(k, e). k \<noteq> cid) (characterEntities v) \<rparr>
           in if act = Some cid then
                (let v2 = v1\<lparr> activeCharacterId := None \<rparr>
                 in if sel = Some CharacterTarget then v2\<lparr> selectedTarget := None \<rparr> else v2)
              else v1)
        else v"
  have "rid \<notin> fst ` set (characterEntities ?v')"
    using Cons.prems by (auto simp: Let_def)
  from Cons.IH[OF this] show ?case by (simp add: p)
qed

lemma removeDeleted_clears:
  assumes "rid \<in> fst ` set es" "rid \<notin> set ids"
  shows "activeCharacterId (removeDeleted ids (Some rid) (Some CharacterTarget) es v) = None
         \<and> selectedTarget (removeDeleted ids (Some rid) (Some CharacterTarget) es v) = None
         \<and> rid \<notin> fst ` set (characterEntities
                              (removeDeleted ids (Some rid) (Some CharacterTarget) es v))"
  using assms
proof (induction es arbitrary: v)
  case Nil
  then show ?case by simp
next
  case (Cons p es)
  obtain cid entity where p: "p = (cid, entity)" by (cases p)
  show ?case
  proof (cases "cid = rid")
    case True
    let ?v2 = "v\<lparr> characterEntities := filter (\<lambda>(k, e). k \<noteq> rid) (characterEntities v),
                   activeCharacterId := None, selectedTarget := None \<rparr>"
    have step: "removeDeleted ids (Some rid) (Some CharacterTarget) (p # es) v
                = removeDeleted ids (Some rid) (Some CharacterTarget) es ?v2"
      using True Cons.prems(2) by (simp add: p Let_def)
    have "rid \<notin> fst ` set (characterEntities ?v2)" by auto
    from removeDeleted_keys[OF this]
      removeDeleted_active_None[of ?v2] removeDeleted_selected_None[of ?v2]
    show ?thesis unfolding step by simp
  next
    case False
    with Cons.prems have "rid \<in> fst ` set es" by (auto simp: p)
    from Cons.IH[OF this Cons.prems(2)] show ?thesis by (simp add: p)
  qed
qed

text \<open>
  C4. For every state of the entity map: when the character that is removed has a live
  entity and is the current selection (the active character id is its id and the target
  kind is character), then after \<open>handleRemoveCharacter\<close> and the character manager's
  effect the active character id is none, the target kind is none, and the entity is
  gone from the map.
\<close>

theorem remove_selected_character_clears_selection:
  assumes "cameraEntity v \<noteq> None"
    and "map_of (characterEntities v) rid = Some entity"
    and "activeCharacterId v = Some rid"
    and "selectedTarget v = Some CharacterTarget"
  shows "activeCharacterId (characterManagerEffect (characters (handleRemoveCharacter rid s)) v) = None
         \<and> selectedTarget (characterManagerEffect (characters (handleRemoveCharacter rid s)) v) = None
         \<and> map_of (characterEntities
                     (characterManagerEffect (characters (handleRemoveCharacter rid s)) v)) rid
             = None"
proof -
  have a: "rid \<in> fst ` set (characterEntities v)"
    using map_of_SomeD[OF assms(2)] by force
  have b: "rid \<notin> set (map char_id (characters (handleRemoveCharacter rid s)))"
    by (auto simp: handleRemoveCharacter_def)
  from removeDeleted_clears[OF a b, of v] assms(1,3,4)
  show ?thesis by (simp add: characterManagerEffect_def map_of_eq_None_iff)
qed

theorem remove_selected_character_clears_selection_witness:
  "cameraEntity heroViewer \<noteq> None
   \<and> map_of (characterEntities heroViewer) ''hero0001'' = Some heroEntity
   \<and> activeCharacterId heroViewer = Some ''hero0001''
   \<and> selectedTarget heroViewer = Some CharacterTarget
   \<and> characters (handleRemoveCharacter ''hero0001'' heroApp) = []
   \<and> activeCharacterId
        (characterManagerEffect (characters (handleRemoveCharacter ''hero0001'' heroApp)) heroViewer)
       = None
   \<and> selectedTarget
        (characterManagerEffect (characters (handleRemoveCharacter ''hero0001'' heroApp)) heroViewer)
       = None
   \<and> map_of (characterEntities
        (characterManagerEffect (characters (handleRemoveCharacter ''hero0001'' heroApp)) heroViewer))
        ''hero0001'' = None"
proof -
  have h: "cameraEntity heroViewer \<noteq> None"
    "map_of (characterEntities heroViewer) ''hero0001'' = Some heroEntity"
    "activeCharacterId heroViewer = Some ''hero0001''"
    "selectedTarget heroViewer = Some CharacterTarget"
    by (simp_all add: heroViewer_def initialViewer_def)
  have c: "characters (handleRemoveCharacter ''hero0001'' heroApp) = []"
    by (simp add: handleRemoveCharacter_def heroApp_def initialApp_def heroChar_def)
  from remove_selected_character_clears_selection[OF h, of heroApp] h c
  show ?thesis by simp
qed

subsection \<open>Gizmo drags\<close>

lemma map_of_map_update:
  "map_of (map (\<lambda>(k, e). if k = cid then (k, f e) else (k, e)) l) k'
     = (if k' = cid then map_option f (map_of l k') else map_of l k')"
  by (induction l) auto

lemma getTargetEntity_update:
  "getTargetEntity (updateTargetEntity f v) = map_option f (getTargetEntity v)"
  by (simp add: getTargetEntity_def updateTargetEntity_def map_of_map_update
      split: option.splits TargetType.splits)

lemma getTargetEntity_cong:
  "selectedTarget a = selectedTarget b \<Longrightarrow> activeCharacterId a = activeCharacterId b
   \<Longrightarrow> splatEntity a = splatEntity b \<Longrightarrow> characterEntities a = characterEntities b
   \<Longrightarrow> getTargetEntity a = getTargetEntity b"
  by (simp add: getTargetEntity_def split: option.splits TargetType.splits)

lemma getTargetEntity_transforms [simp]:
  "getTargetEntity (v\<lparr> transforms := t \<rparr>) = getTargetEntity v"
  by (rule getTargetEntity_cong) simp_all

lemma updateTargetEntity_fields:
  "draggedAxis (updateTargetEntity f v) = draggedAxis v
   \<and> gizmoRoot (updateTargetEntity f v) = gizmoRoot v
   \<and> dragStartPoint (updateTargetEntity f v) = dragStartPoint v
   \<and> dragStartValue (updateTargetEntity f v) = dragStartValue v
   \<and> cameraEntity (updateTargetEntity f v) = cameraEntity v
   \<and> pointerLocked (updateTargetEntity f v) = pointerLocked v
   \<and> isEditMode (updateTargetEntity f v) = isEditMode v
   \<and> isFreeLooking (updateTargetEntity f v) = isFreeLooking v
   \<and> isOrbiting (updateTargetEntity f v) = isOrbiting v"
  by (simp add: updateTargetEntity_def split: option.splits TargetType.splits)

lemma dragMove_fields:
  "draggedAxis (dragMove ev v) = draggedAxis v
   \<and> gizmoRoot (dragMove ev v) = gizmoRoot v
   \<and> dragStartPoint (dragMove ev v) = dragStartPoint v
   \<and> dragStartValue (dragMove ev v) = dragStartValue v
   \<and> cameraEntity (dragMove ev v) = cameraEntity v
   \<and> pointerLocked (dragMove ev v) = pointerLocked v
   \<and> isEditMode (dragMove ev v) = isEditMode v
   \<and> isFreeLooking (dragMove ev v) = isFreeLooking v
   \<and> isOrbiting (dragMove ev v) = isOrbiting v"
  by (simp add: dragMove_def Let_def updateTargetEntity_fields split: option.splits)

lemma onMouseMove_drag:
  assumes "cameraEntity v \<noteq> None" "\<not> pointerLocked v" "isEditMode v" "\<not> isFreeLooking v"
    "\<not> isOrbiting v"
  shows "onMouseMove v ev = dragMove ev v"
  using assms by (auto simp: onMouseMove_def)

lemma beginDrag_fields:
  "cameraEntity (beginDrag a ev v) = cameraEntity v
   \<and> pointerLocked (beginDrag a ev v) = pointerLocked v
   \<and> isEditMode (beginDrag a ev v) = isEditMode v
   \<and> isFreeLooking (beginDrag a ev v) = isFreeLooking v
   \<and> isOrbiting (beginDrag a ev v) = isOrbiting v
   \<and> gizmoRoot (beginDrag a ev v) = gizmoRoot v
   \<and> draggedAxis (beginDrag a ev v) = Some a"
  by (simp add: beginDrag_def Let_def split: option.splits)

lemma beginDrag_start:
  assumes "getTargetEntity v = Some target"
  shows "dragStartPoint (beginDrag (c # dir) ev v) = md_planeHit ev
   \<and> dragStartValue (beginDrag (c # dir) ev v)
       = (if c = CHR ''s'' then localScale target
          else if c = CHR ''r'' then eulerAngles target
          else if c = CHR ''t'' then position target
          else dragStartValue v)"
  using assms by (simp add: beginDrag_def Let_def startsWith_def)

lemma onMouseDown_gizmo:
  assumes "isEditMode v" "cameraEntity v = Some cam" "gizmoRoot v = Some g"
    "md_button ev = 0" "md_gizmoHit ev = Some (c # dir)"
  shows "onMouseDown v ev = beginDrag (c # dir) ev v"
  using assms by (simp add: onMouseDown_def)

lemma identity_transform: "transformVector identityQuat u = u"
  by (cases u) (simp add: transformVector_def identityQuat_def vec3_def Let_def)

lemma plainViewer_press:
  "isEditMode plainViewer" "cameraEntity plainViewer = Some \<lparr> cam_position = vec3 0 (3 / 2) 4,
                                 cam_orientation = EulerAngles (vec3 0 0 0) \<rparr>"
  "gizmoRoot plainViewer = Some \<lparr> g_position = vec3 0 0 0, g_rotation = identityQuat \<rparr>"
  "getTargetEntity plainViewer = Some plainScene"
  by (simp_all add: plainViewer_def initialViewer_def getTargetEntity_def)

lemma plainViewer_after_press:
  "onMouseDown plainViewer (pressHandle (c # dir))
     = plainViewer\<lparr> draggedAxis := Some (c # dir), dragStartPoint := vec3 0 0 0,
                     dragStartValue := (if c = CHR ''s'' then vec3 1 1 1 else
                                        if c = CHR ''r'' then vec3 0 0 0 else
                                        if c = CHR ''t'' then vec3 0 0 0 else vec3 0 0 0) \<rparr>"
  by (simp add: onMouseDown_def plainViewer_press pressHandle_def beginDrag_def Let_def
      startsWith_def plainScene_def)
     (simp add: plainViewer_def initialViewer_def)

lemma plainViewer_first_move:
  assumes "c = CHR ''s'' \<or> c = CHR ''t''"
  shows "onMouseMove (onMouseDown plainViewer (pressHandle (c # dir))) ev
       = dragMove ev (onMouseDown plainViewer (pressHandle (c # dir)))"
  by (rule onMouseMove_drag)
     (simp_all add: plainViewer_after_press, simp_all add: plainViewer_def initialViewer_def)

text \<open>
  C8. A drag on a scale handle. The press on the handle records the target's scale as
  the drag-start value and the point under the pointer as the anchor. Take any later
  pointer move of that drag: a move that runs the gizmo branch in a state still holding
  what the press recorded, with whatever rotation the gizmo has by then, and whose ray
  meets the drag plane. It leaves the target with the drag-start scale multiplied by
  1 + d * 1 on the handle's axis and with the drag-start scale on the other two axes, d
  being the displacement from the anchor projected on the handle's world-space axis;
  and it leaves the recorded values in place for the next move.
\<close>

theorem scale_move_scales_constrained_axis:
  assumes "isEditMode v" "cameraEntity v = Some cam" "gizmoRoot v = Some g0"
    "getTargetEntity v = Some target" "md_button down = 0"
    "md_gizmoHit down = Some (CHR ''s'' # dir)"
    and "cameraEntity w \<noteq> None" "\<not> pointerLocked w" "isEditMode w" "\<not> isFreeLooking w"
    "\<not> isOrbiting w"
    and "draggedAxis w = draggedAxis (onMouseDown v down)"
    "dragStartPoint w = dragStartPoint (onMouseDown v down)"
    "dragStartValue w = dragStartValue (onMouseDown v down)"
    and "gizmoRoot w = Some g" "getTargetEntity w = Some t" "mm_hit ev = Some hitPoint"
  shows "map_option localScale (getTargetEntity (onMouseMove w ev))
         = Some (let d = dot (transformVector (g_rotation g) (axisVector dir))
                             (sub2 hitPoint (md_planeHit down));
                     s0 = localScale target
                 in vec3 (if dir = ''x'' then vx s0 * (1 + d * 1) else vx s0)
                         (if dir = ''y'' then vy s0 * (1 + d * 1) else vy s0)
                         (if dir = ''z'' then vz s0 * (1 + d * 1) else vz s0))
         \<and> draggedAxis (onMouseMove w ev) = draggedAxis w
         \<and> dragStartPoint (onMouseMove w ev) = dragStartPoint w
         \<and> dragStartValue (onMouseMove w ev) = dragStartValue w"
proof -
  have d: "onMouseDown v down = beginDrag (CHR ''s'' # dir) down v"
    using assms(1,2,3,5,6) by (rule onMouseDown_gizmo)
  have r: "draggedAxis w = Some (CHR ''s'' # dir)" "dragStartPoint w = md_planeHit down"
    "dragStartValue w = localScale target"
    using assms(12-14) beginDrag_start[OF assms(4), of "CHR ''s''" dir down]
    by (simp_all add: d beginDrag_fields)
  have m: "onMouseMove w ev = dragMove ev w"
    using assms(7-11) by (rule onMouseMove_drag)
  have "map_option localScale (getTargetEntity (dragMove ev w))
         = Some (let d = dot (transformVector (g_rotation g) (axisVector dir))
                             (sub2 hitPoint (md_planeHit down));
                     s0 = localScale target
                 in vec3 (if dir = ''x'' then vx s0 * (1 + d * 1) else vx s0)
                         (if dir = ''y'' then vy s0 * (1 + d * 1) else vy s0)
                         (if dir = ''z'' then vz s0 * (1 + d * 1) else vz s0))"
    using r assms(15-17) by (simp add: dragMove_def Let_def getTargetEntity_update)
  then show ?thesis by (simp add: m dragMove_fields)
qed

theorem scale_move_scales_constrained_axis_witness:
  "isEditMode plainViewer \<and> md_button (pressHandle ''sx'') = 0
   \<and> md_gizmoHit (pressHandle ''sx'') = Some ''sx''
   \<and> map_option localScale (getTargetEntity plainViewer) = Some (vec3 1 1 1)
   \<and> map_option localScale
        (getTargetEntity (onMouseMove (onMouseDown plainViewer (pressHandle ''sx''))
                            (moveTo (vec3 3 1 0))))
       = Some (vec3 4 1 1)
   \<and> map_option localScale
        (getTargetEntity (onMouseMove (onMouseMove (onMouseDown plainViewer (pressHandle ''sx''))
                                         (moveTo (vec3 3 1 0)))
                            (moveTo (vec3 (1 / 2) 7 0))))
       = Some (vec3 (3 / 2) 1 1)"
proof -
  let ?W1 = "onMouseDown plainViewer (pressHandle ''sx'')"
  let ?W2 = "onMouseMove ?W1 (moveTo (vec3 3 1 0))"
  have b: "md_button (pressHandle ''sx'') = 0" by (simp add: pressHandle_def)
  have g: "md_gizmoHit (pressHandle ''sx'') = Some (CHR ''s'' # ''x'')" by (simp add: pressHandle_def)
  have w2: "?W2 = dragMove (moveTo (vec3 3 1 0)) ?W1"
    by (rule plainViewer_first_move) simp
  have f1: "cameraEntity ?W1 \<noteq> None" "\<not> pointerLocked ?W1" "isEditMode ?W1"
    "\<not> isFreeLooking ?W1" "\<not> isOrbiting ?W1"
    "gizmoRoot ?W1 = Some \<lparr> g_position = vec3 0 0 0, g_rotation = identityQuat \<rparr>"
    by (simp_all add: plainViewer_after_press, simp_all add: plainViewer_def initialViewer_def)
  have t1: "getTargetEntity ?W1 = Some plainScene"
    using plainViewer_press(4) getTargetEntity_cong[of ?W1 plainViewer]
    by (simp add: plainViewer_after_press)
  have f2: "cameraEntity ?W2 \<noteq> None" "\<not> pointerLocked ?W2" "isEditMode ?W2"
    "\<not> isFreeLooking ?W2" "\<not> isOrbiting ?W2"
    "draggedAxis ?W2 = draggedAxis ?W1" "dragStartPoint ?W2 = dragStartPoint ?W1"
    "dragStartValue ?W2 = dragStartValue ?W1"
    "gizmoRoot ?W2 = Some \<lparr> g_position = vec3 0 0 0, g_rotation = identityQuat \<rparr>"
    using f1 by (simp_all add: w2 dragMove_fields)
  have s1: "map_option localScale (getTargetEntity plainViewer) = Some (vec3 1 1 1)"
    by (simp add: plainViewer_press plainScene_def)
  have m1: "mm_hit (moveTo (vec3 3 1 0)) = Some (vec3 3 1 0)" by (simp add: moveTo_def)
  have m2: "mm_hit (moveTo (vec3 (1 / 2) 7 0)) = Some (vec3 (1 / 2) 7 0)" by (simp add: moveTo_def)
  have e1: "map_option localScale (getTargetEntity ?W2) = Some (vec3 4 1 1)"
    using scale_move_scales_constrained_axis[OF plainViewer_press b g f1(1-5) refl refl refl f1(6) t1 m1]
    by (simp add: identity_transform axisVector_def dot_def sub2_def vec3_def pressHandle_def
        plainScene_def)
  then obtain t2 where t2: "getTargetEntity ?W2 = Some t2" by auto
  from scale_move_scales_constrained_axis[OF plainViewer_press b g f2(1-5) f2(6-8) f2(9) t2 m2] s1 e1 b g plainViewer_press(1)
  show ?thesis
    by (simp add: identity_transform axisVector_def dot_def sub2_def vec3_def pressHandle_def
        plainScene_def)
qed

lemma quarter_axis: "transformVector quarterTurnZ (axisVector ''x'') = vec3 0 1 0"
proof -
  have h: "sqrt 2 * sqrt 2 = 2" by simp
  have "sqrt 2 / 2 * (sqrt 2 / 2) = 1 / 2" using h by (simp add: field_simps)
  then show ?thesis
    by (simp add: transformVector_def quarterTurnZ_def axisVector_def vec3_def Let_def)
qed

text \<open>
  C1, as the claim states it, fails. With the scene turned by 90 degrees about z, the
  gizmo is turned with it and its x handle points along the world's y axis: dragging
  the x handle from the origin to the point (0, 2, 0) moves the scene from (0, 0, 0) to
  (0, 2, 0). The component on the constrained axis is unchanged and the y component,
  which is not on it, has changed.
\<close>

theorem translate_drag_turned_counterexample:
  "map_option position (getTargetEntity turnedViewer) = Some (vec3 0 0 0)
   \<and> map_option position
        (getTargetEntity (onMouseMove (onMouseDown turnedViewer (pressHandle ''tx''))
                            (moveTo (vec3 0 2 0))))
      = Some (vec3 0 2 0)"
proof -
  have t: "getTargetEntity turnedViewer = Some (plainScene\<lparr> eulerAngles := vec3 0 0 90 \<rparr>)"
    by (simp add: getTargetEntity_def turnedViewer_def initialViewer_def)
  have d: "onMouseDown turnedViewer (pressHandle ''tx'')
             = beginDrag ''tx'' (pressHandle ''tx'') turnedViewer"
    by (simp add: onMouseDown_def turnedViewer_def initialViewer_def pressHandle_def)
  have b: "beginDrag ''tx'' (pressHandle ''tx'') turnedViewer
           = turnedViewer\<lparr> draggedAxis := Some ''tx'', dragStartPoint := vec3 0 0 0,
                             dragStartValue := vec3 0 0 0 \<rparr>"
    by (simp add: beginDrag_def t Let_def startsWith_def pressHandle_def plainScene_def)
  let ?w = "turnedViewer\<lparr> draggedAxis := Some ''tx'', dragStartPoint := vec3 0 0 0,
                             dragStartValue := vec3 0 0 0 \<rparr>"
  have tw: "getTargetEntity ?w = Some (plainScene\<lparr> eulerAngles := vec3 0 0 90 \<rparr>)"
    using t getTargetEntity_cong[of ?w turnedViewer] by simp
  have m: "onMouseMove ?w (moveTo (vec3 0 2 0)) = dragMove (moveTo (vec3 0 2 0)) ?w"
    by (simp add: onMouseMove_def turnedViewer_def initialViewer_def)
  have g: "gizmoRoot ?w = Some \<lparr> g_position = vec3 0 0 0, g_rotation = quarterTurnZ \<rparr>"
    by (simp add: turnedViewer_def initialViewer_def)
  have "map_option position (getTargetEntity (dragMove (moveTo (vec3 0 2 0)) ?w))
          = Some (vec3 0 2 0)"
    using tw g quarter_axis
    by (simp add: dragMove_def Let_def getTargetEntity_update moveTo_def
        dot_def sub2_def v_add_def mulScalar_def vec3_def)
  then show ?thesis
    using t by (simp add: d b m plainScene_def)
qed

text \<open>
  C1, amended. A drag on a translate handle. The press on the handle records the
  target's position as the drag-start value. Any later pointer move of that drag whose
  ray meets the drag plane puts the target at the drag-start position plus the
  projected displacement times the handle's world-space direction, which is the
  constrained axis turned by the rotation the gizmo has at that move. A position
  component is therefore the drag-start one wherever that direction has a zero
  component; when the gizmo is unrotated at the move the direction is the constrained
  axis itself, and then the two other components are the drag-start ones.
\<close>

theorem translate_move_along_gizmo_axis:
  assumes "isEditMode v" "cameraEntity v = Some cam" "gizmoRoot v = Some g0"
    "getTargetEntity v = Some target" "md_button down = 0"
    "md_gizmoHit down = Some (CHR ''t'' # dir)"
    and "cameraEntity w \<noteq> None" "\<not> pointerLocked w" "isEditMode w" "\<not> isFreeLooking w"
    "\<not> isOrbiting w"
    and "draggedAxis w = draggedAxis (onMouseDown v down)"
    "dragStartPoint w = dragStartPoint (onMouseDown v down)"
    "dragStartValue w = dragStartValue (onMouseDown v down)"
    and "gizmoRoot w = Some g" "getTargetEntity w = Some t" "mm_hit ev = Some hitPoint"
  shows "let axisVec = transformVector (g_rotation g) (axisVector dir);
             d = dot axisVec (sub2 hitPoint (md_planeHit down));
             newPos = v_add (position target) (mulScalar axisVec d)
         in map_option position (getTargetEntity (onMouseMove w ev)) = Some newPos
            \<and> (vx axisVec = 0 \<longrightarrow> vx newPos = vx (position target))
            \<and> (vy axisVec = 0 \<longrightarrow> vy newPos = vy (position target))
            \<and> (vz axisVec = 0 \<longrightarrow> vz newPos = vz (position target))
            \<and> (g_rotation g = identityQuat \<longrightarrow> axisVec = axisVector dir)
            \<and> draggedAxis (onMouseMove w ev) = draggedAxis w
            \<and> dragStartPoint (onMouseMove w ev) = dragStartPoint w
            \<and> dragStartValue (onMouseMove w ev) = dragStartValue w"
proof -
  have d: "onMouseDown v down = beginDrag (CHR ''t'' # dir) down v"
    using assms(1,2,3,5,6) by (rule onMouseDown_gizmo)
  have r: "draggedAxis w = Some (CHR ''t'' # dir)" "dragStartPoint w = md_planeHit down"
    "dragStartValue w = position target"
    using assms(12-14) beginDrag_start[OF assms(4), of "CHR ''t''" dir down]
    by (simp_all add: d beginDrag_fields)
  have m: "onMouseMove w ev = dragMove ev w"
    using assms(7-11) by (rule onMouseMove_drag)
  have p: "map_option position (getTargetEntity (dragMove ev w))
        = Some (v_add (position target)
                  (mulScalar (transformVector (g_rotation g) (axisVector dir))
                     (dot (transformVector (g_rotation g) (axisVector dir))
                        (sub2 hitPoint (md_planeHit down)))))"
    using r assms(15-17) by (simp add: dragMove_def Let_def getTargetEntity_update)
  show ?thesis
    unfolding Let_def
    using p by (simp add: m dragMove_fields v_add_def mulScalar_def vec3_def identity_transform)
qed

theorem translate_move_along_gizmo_axis_witness:
  "isEditMode plainViewer \<and> md_button (pressHandle ''tx'') = 0
   \<and> md_gizmoHit (pressHandle ''tx'') = Some ''tx''
   \<and> map_option position (getTargetEntity plainViewer) = Some (vec3 0 0 0)
   \<and> map_option position
        (getTargetEntity (onMouseMove (onMouseDown plainViewer (pressHandle ''tx''))
                            (moveTo (vec3 5 1 0))))
       = Some (vec3 5 0 0)
   \<and> map_option position
        (getTargetEntity (onMouseMove (onMouseMove (onMouseDown plainViewer (pressHandle ''tx''))
                                         (moveTo (vec3 5 1 0)))
                            (moveTo (vec3 2 3 0))))
       = Some (vec3 2 0 0)"
proof -
  let ?W1 = "onMouseDown plainViewer (pressHandle ''tx'')"
  let ?W2 = "onMouseMove ?W1 (moveTo (vec3 5 1 0))"
  have b: "md_button (pressHandle ''tx'') = 0" by (simp add: pressHandle_def)
  have g: "md_gizmoHit (pressHandle ''tx'') = Some (CHR ''t'' # ''x'')" by (simp add: pressHandle_def)
  have w2: "?W2 = dragMove (moveTo (vec3 5 1 0)) ?W1"
    by (rule plainViewer_first_move) simp
  have f1: "cameraEntity ?W1 \<noteq> None" "\<not> pointerLocked ?W1" "isEditMode ?W1"
    "\<not> isFreeLooking ?W1" "\<not> isOrbiting ?W1"
    "gizmoRoot ?W1 = Some \<lparr> g_position = vec3 0 0 0, g_rotation = identityQuat \<rparr>"
    by (simp_all add: plainViewer_after_press, simp_all add: plainViewer_def initialViewer_def)
  have t1: "getTargetEntity ?W1 = Some plainScene"
    using plainViewer_press(4) getTargetEntity_cong[of ?W1 plainViewer]
    by (simp add: plainViewer_after_press)
  have f2: "cameraEntity ?W2 \<noteq> None" "\<not> pointerLocked ?W2" "isEditMode ?W2"
    "\<not> isFreeLooking ?W2" "\<not> isOrbiting ?W2"
    "draggedAxis ?W2 = draggedAxis ?W1" "dragStartPoint ?W2 = dragStartPoint ?W1"
    "dragStartValue ?W2 = dragStartValue ?W1"
    "gizmoRoot ?W2 = Some \<lparr> g_position = vec3 0 0 0, g_rotation = identityQuat \<rparr>"
    using f1 by (simp_all add: w2 dragMove_fields)
  have s1: "map_option position (getTargetEntity plainViewer) = Some (vec3 0 0 0)"
    by (simp add: plainViewer_press plainScene_def)
  have m1: "mm_hit (moveTo (vec3 5 1 0)) = Some (vec3 5 1 0)" by (simp add: moveTo_def)
  have m2: "mm_hit (moveTo (vec3 2 3 0)) = Some (vec3 2 3 0)" by (simp add: moveTo_def)
  have e1: "map_option position (getTargetEntity ?W2) = Some (vec3 5 0 0)"
    using translate_move_along_gizmo_axis[OF plainViewer_press b g f1(1-5) refl refl refl f1(6) t1 m1]
    by (simp add: Let_def identity_transform axisVector_def dot_def sub2_def v_add_def
        mulScalar_def vec3_def pressHandle_def plainScene_def)
  then obtain t2 where t2: "getTargetEntity ?W2 = Some t2" by auto
  from translate_move_along_gizmo_axis[OF plainViewer_press b g f2(1-5) f2(6-8) f2(9) t2 m2] s1 e1 b g plainViewer_press(1)
  show ?thesis
    by (simp add: Let_def identity_transform axisVector_def dot_def sub2_def v_add_def
        mulScalar_def vec3_def pressHandle_def plainScene_def)
qed

end
